theory Spec2Isabelle
  imports Main
begin

section \<open>The DVR emulation interface of locast2dvr\<close>

text \<open>
  A shallow embedding of \<^verbatim>\<open>src/locast2dvr/http/interface.py\<close>: the function
  \<^verbatim>\<open>HTTPInterface\<close> builds a Flask application whose route handlers are
  closures over its arguments. Every handler becomes a HOL function of the closure
  environment; an exception becomes the \<open>Inl\<close> branch of a sum; the generator
  \<^verbatim>\<open>_stream\<close>, the transcoder process and the stderr thread of one
  \<^verbatim>\<open>/watch\<close> request become a state record that is stepped by the events of
  its consumer and of the thread.

  Python strings are modelled as HOL strings, so a character is one of the 256
  code points of \<^typ>\<open>char\<close>.
\<close>

subsection \<open>Python values\<close>

text \<open>
  The scalar values a station dictionary (decoded JSON) holds under the keys the
  handlers read.
\<close>

datatype pyval = PNone | PBool bool | PInt int | PStr string

datatype py_error =
    KeyError string
  | TypeError
  | FileNotFoundError string
  | UpstreamError string

text \<open>Truth value testing, as used by \<^verbatim>\<open>or\<close>, \<^verbatim>\<open>if\<close> and \<^verbatim>\<open>filter(None, ...)\<close>.\<close>

fun truthy :: "pyval \<Rightarrow> bool" where
  "truthy PNone = False"
| "truthy (PBool b) = b"
| "truthy (PInt i) = (i \<noteq> 0)"
| "truthy (PStr s) = (s \<noteq> [])"

text \<open>\<^verbatim>\<open>a or b\<close> on two values that are already evaluated.\<close>

definition py_or :: "pyval \<Rightarrow> pyval \<Rightarrow> pyval" where
  "py_or a b = (if truthy a then a else b)"

definition digit_char :: "nat \<Rightarrow> char" where
  "digit_char d = ''0123456789'' ! d"

fun show_nat :: "nat \<Rightarrow> string" where
  "show_nat n = (if n < 10 then [digit_char n] else show_nat (n div 10) @ [digit_char (n mod 10)])"

declare show_nat.simps [simp del]

definition show_int :: "int \<Rightarrow> string" where
  "show_int i = (if i < 0 then CHR ''-'' # show_nat (nat (- i)) else show_nat (nat i))"

text \<open>\<^verbatim>\<open>str(v)\<close>, which is what an f-string field \<^verbatim>\<open>{v}\<close> inserts.\<close>

fun py_str :: "pyval \<Rightarrow> string" where
  "py_str PNone = ''None''"
| "py_str (PBool b) = (if b then ''True'' else ''False'')"
| "py_str (PInt i) = show_int i"
| "py_str (PStr s) = s"

text \<open>A dictionary with string keys; \<^verbatim>\<open>d.get(k)\<close> and \<^verbatim>\<open>d[k]\<close>.\<close>

type_synonym station = "string \<rightharpoonup> pyval"

definition dict_get :: "station \<Rightarrow> string \<Rightarrow> pyval" where
  "dict_get d k = (case d k of None \<Rightarrow> PNone | Some v \<Rightarrow> v)"

definition dict_item :: "station \<Rightarrow> string \<Rightarrow> py_error + pyval" where
  "dict_item d k = (case d k of None \<Rightarrow> Inl (KeyError k) | Some v \<Rightarrow> Inr v)"

subsection \<open>Configuration, metadata service, closure environment\<close>

text \<open>
  Modelled from the spec: the class \<^verbatim>\<open>Configuration\<close> of
  \<^verbatim>\<open>locast2dvr.utils\<close> is not part of the source. It is a dictionary whose
  keys are read as attributes; the record holds the knobs the interface reads
  (bind address, device strings, tuner count, multiplex toggle, transcoder path,
  chunk size, verbosity), the password that \<^verbatim>\<open>/config\<close> masks, and every
  further key in \<open>other_keys\<close>.
\<close>

record Configuration =
  bind_address :: string
  device_model :: string
  device_firmware :: string
  device_version :: string
  tuner_count :: int
  multiplex :: bool
  ffmpeg :: "string option"
  bytes_per_read :: int
  verbose :: int
  password :: string
  other_keys :: "(string \<times> pyval) list"

text \<open>
  Modelled from the spec: the class \<^verbatim>\<open>LocastService\<close> of
  \<^verbatim>\<open>locast2dvr.locast\<close> is not part of the source. Its contract is
  \<^verbatim>\<open>getStations() -> ordered sequence of Station\<close> and
  \<^verbatim>\<open>resolveStreamURI(channelId) -> URI, fails with NotFound/Unavailable\<close>;
  a failure is an exception, here \<open>Inl\<close>.
\<close>

record LocastService =
  city :: string
  get_stations :: "station list"
  get_station_stream_uri :: "string \<Rightarrow> py_error + string"

text \<open>
  The variables of \<^verbatim>\<open>HTTPInterface\<close> that the handlers close over. No handler
  declares one of them \<^verbatim>\<open>nonlocal\<close>, so a handler reads them and an
  assignment inside a handler binds a local of that handler.
\<close>

record app =
  config :: Configuration
  port :: int
  uid :: string
  locast_service :: LocastService
  station_scan :: bool
  host_and_port :: string

definition HTTPInterface ::
  "Configuration \<Rightarrow> int \<Rightarrow> string \<Rightarrow> LocastService \<Rightarrow> bool \<Rightarrow> app" where
  "HTTPInterface cfg p u svc scan_flag =
     \<lparr> config = cfg, port = p, uid = u, locast_service = svc, station_scan = scan_flag,
       host_and_port = bind_address cfg @ '':'' @ show_int p \<rparr>"

subsection \<open>Responses\<close>

datatype json =
    JNone
  | JBool bool
  | JInt int
  | JStr string
  | JList "json list"
  | JObj "(string \<times> json) list"

text \<open>
  What a handler returns. \<open>Xml\<close> is a rendered template, kept as the template's
  name and the variables handed to it (the templates are not part of the source);
  \<open>Json\<close>, \<open>JsonStations\<close> and \<open>JsonConfig\<close> are the documents handed to
  \<^verbatim>\<open>jsonify\<close>; \<open>Text body status\<close> is a string or a (body, status) tuple;
  \<open>Stream i ct\<close> is a response whose body is the generator of session \<open>i\<close>.
\<close>

datatype response =
    Xml string "(string \<times> string) list" "station list"
  | Json json
  | JsonStations "station list"
  | JsonConfig Configuration
  | Text string int
  | Redirect string int
  | Stream nat string

subsection \<open>The rescan endpoints\<close>

definition lineup_status_json :: "app \<Rightarrow> response" where
  "lineup_status_json a =
     (if station_scan a
      then Json (JObj [(''ScanInProgress'', JBool True), (''Progress'', JInt 50),
                       (''Found'', JInt 5)])
      else Json (JObj [(''ScanInProgress'', JBool False), (''ScanPossible'', JBool True),
                       (''Source'', JStr ''Antenna''),
                       (''SourceList'', JList [JStr ''Antenna''])]))"

text \<open>\<^verbatim>\<open>request.args.get(k)\<close>: the first value given for the key, or None.\<close>

definition args_get :: "(string \<times> string) list \<Rightarrow> string \<Rightarrow> string option" where
  "args_get args k = map_of args k"

text \<open>The f-string field \<^verbatim>\<open>{scan}\<close> of a value that is a string or None.\<close>

definition format_opt :: "string option \<Rightarrow> string" where
  "format_opt v = (case v of None \<Rightarrow> py_str PNone | Some s \<Rightarrow> py_str (PStr s))"

text \<open>
  \<^verbatim>\<open>lineup_post\<close> assigns \<^verbatim>\<open>station_scan\<close> twice. The name is assigned in
  the body of \<^verbatim>\<open>lineup_post\<close> and not declared \<^verbatim>\<open>nonlocal\<close>, so both
  assignments bind a local of \<^verbatim>\<open>lineup_post\<close>; the closure environment is
  returned as it was.
\<close>

definition lineup_post :: "app \<Rightarrow> (string \<times> string) list \<Rightarrow> response \<times> app" where
  "lineup_post a args =
     (let scan = args_get args ''scan'' in
      if scan = Some ''start'' then
        (let station_scan_local = True;
             stations = get_stations (locast_service a);
             station_scan_local = False
         in (Text [] 204, a))
      else (Text (format_opt scan @ '' is not a valid scan command'') 400, a))"

subsection \<open>Station documents\<close>

definition is_digit :: "char \<Rightarrow> bool" where
  "is_digit c = (c \<in> set ''0123456789'')"

text \<open>
  Group 1 of \<^verbatim>\<open>re.match(r'\d+\.\d+ (.+)', value)\<close>, or None when there is no
  match: a run of digits, a dot, a run of digits, one space, and then the longest
  non-empty run of characters that are not a line feed. (Each greedy run can only
  match in one way, since the character that must follow it is not in the run.)
\<close>

definition match_name :: "string \<Rightarrow> string option" where
  "match_name v =
     (let d1 = takeWhile is_digit v; r1 = dropWhile is_digit v in
      if d1 = [] then None
      else (case r1 of
              [] \<Rightarrow> None
            | c # r2 \<Rightarrow>
                if c \<noteq> CHR ''.'' then None
                else (let d2 = takeWhile is_digit r2; r3 = dropWhile is_digit r2 in
                      if d2 = [] then None
                      else (case r3 of
                              [] \<Rightarrow> None
                            | c' # r4 \<Rightarrow>
                                if c' \<noteq> CHR '' '' then None
                                else (let g = takeWhile (\<lambda>x. x \<noteq> CHR 0x0A) r4 in
                                      if g = [] then None else Some g)))))"

text \<open>\<^verbatim>\<open>re.match\<close> raises TypeError on a value that is not a string.\<close>

definition name_only :: "pyval \<Rightarrow> py_error + string" where
  "name_only v =
     (case v of
        PStr s \<Rightarrow> (case match_name s of Some g \<Rightarrow> Inr g | None \<Rightarrow> Inr s)
      | _ \<Rightarrow> Inl TypeError)"

text \<open>\<^verbatim>\<open>station.get("channel_remapped") or station["channel"]\<close>\<close>

definition channel_of :: "station \<Rightarrow> py_error + pyval" where
  "channel_of st =
     (let r = dict_get st ''channel_remapped'' in
      if truthy r then Inr r else dict_item st ''channel'')"

text \<open>
  \<^verbatim>\<open>station.get("callSign_remapped") or station.get("callSign") or station.get("name")\<close>
\<close>

definition callsign_source :: "station \<Rightarrow> pyval" where
  "callsign_source st =
     py_or (py_or (dict_get st ''callSign_remapped'') (dict_get st ''callSign''))
           (dict_get st ''name'')"

text \<open>\<^verbatim>\<open>sep.join(xs)\<close>: TypeError unless every item is a string.\<close>

fun str_join :: "string \<Rightarrow> pyval list \<Rightarrow> py_error + string" where
  "str_join sep [] = Inr []"
| "str_join sep [PStr s] = Inr s"
| "str_join sep (PStr s # x # xs) =
     (case str_join sep (x # xs) of Inl e \<Rightarrow> Inl e | Inr t \<Rightarrow> Inr (s @ sep @ t))"
| "str_join sep (_ # xs) = Inl TypeError"

text \<open>The text one iteration of the loop of \<^verbatim>\<open>m3u\<close> appends to \<^verbatim>\<open>m3uText\<close>.\<close>

definition m3u_station :: "app \<Rightarrow> station \<Rightarrow> py_error + string" where
  \<open>m3u_station a st =
     (case name_only (callsign_source st) of
        Inl e \<Rightarrow> Inl e
      | Inr callsign \<Rightarrow>
     (case dict_item st ''city'' of
        Inl e \<Rightarrow> Inl e
      | Inr city_v \<Rightarrow>
     (let logo = py_or (dict_get st ''logoUrl'') (dict_get st ''logo226Url'') in
      case channel_of st of
        Inl e \<Rightarrow> Inl e
      | Inr channel \<Rightarrow>
     (let networks =
            (if callsign \<in> set [''ABC'', ''CBS'', ''NBC'', ''FOX'', ''CW'', ''PBS'']
             then ''Network'' else []) in
      case str_join '';'' (filter truthy [city_v, PStr networks]) of
        Inl e \<Rightarrow> Inl e
      | Inr groups \<Rightarrow>
     (case dict_item st ''id'' of
        Inl e \<Rightarrow> Inl e
      | Inr sid \<Rightarrow>
     (let url = ''http://'' @ host_and_port a @ ''/watch/'' @ py_str sid @ ''.m3u'';
          tvg_name = (if multiplex (config a)
                      then callsign @ '' ('' @ py_str city_v @ '')'' else callsign)
      in Inr (''#EXTINF:-1 tvg-id="channel.'' @ py_str sid
              @ ''" tvg-name="'' @ tvg_name
              @ ''" tvg-logo="'' @ py_str logo
              @ ''" tvg-chno="'' @ py_str channel
              @ ''" group-title="'' @ groups
              @ ''", '' @ callsign
              @ (if multiplex (config a) then '' ('' @ py_str city_v @ '')'' else [])
              @ [CHR 0x0A] @ url @ [CHR 0x0A, CHR 0x0A])))))))\<close>

fun m3u_loop :: "app \<Rightarrow> station list \<Rightarrow> string \<Rightarrow> py_error + string" where
  "m3u_loop a [] m3uText = Inr m3uText"
| "m3u_loop a (st # rest) m3uText =
     (case m3u_station a st of
        Inl e \<Rightarrow> Inl e
      | Inr t \<Rightarrow> m3u_loop a rest (m3uText @ t))"

definition m3u :: "app \<Rightarrow> py_error + response" where
  "m3u a =
     (case m3u_loop a (get_stations (locast_service a)) (''#EXTM3U'' @ [CHR 0x0A]) of
        Inl e \<Rightarrow> Inl e
      | Inr m3uText \<Rightarrow> Inr (Text m3uText 200))"

fun to_json :: "pyval \<Rightarrow> json" where
  "to_json PNone = JNone"
| "to_json (PBool b) = JBool b"
| "to_json (PInt i) = JInt i"
| "to_json (PStr s) = JStr s"

definition lineup_json_station :: "app \<Rightarrow> station \<Rightarrow> py_error + json" where
  "lineup_json_station a st =
     (case channel_of st of
        Inl e \<Rightarrow> Inl e
      | Inr channel \<Rightarrow>
     (case dict_item st ''name'' of
        Inl e \<Rightarrow> Inl e
      | Inr nm \<Rightarrow>
     (case dict_item st ''id'' of
        Inl e \<Rightarrow> Inl e
      | Inr sid \<Rightarrow>
          Inr (JObj [(''GuideNumber'', to_json channel), (''GuideName'', to_json nm),
                     (''URL'', JStr (''http://'' @ host_and_port a @ ''/watch/''
                                     @ py_str sid))]))))"

fun lineup_json_loop :: "app \<Rightarrow> station list \<Rightarrow> py_error + json list" where
  "lineup_json_loop a [] = Inr []"
| "lineup_json_loop a (st # rest) =
     (case lineup_json_station a st of
        Inl e \<Rightarrow> Inl e
      | Inr j \<Rightarrow> (case lineup_json_loop a rest of
                    Inl e \<Rightarrow> Inl e
                  | Inr js \<Rightarrow> Inr (j # js)))"

definition lineup_json :: "app \<Rightarrow> py_error + response" where
  "lineup_json a =
     (case lineup_json_loop a (get_stations (locast_service a)) of
        Inl e \<Rightarrow> Inl e
      | Inr js \<Rightarrow> Inr (Json (JList js)))"

subsection \<open>The other documents\<close>

definition device_xml :: "app \<Rightarrow> response" where
  "device_xml a =
     Xml ''device.xml''
       [(''device_model'', device_model (config a)),
        (''device_version'', device_version (config a)),
        (''friendly_name'', city (locast_service a)),
        (''uid'', uid a),
        (''host_and_port'', host_and_port a)] []"

definition discover_json :: "app \<Rightarrow> response" where
  "discover_json a =
     Json (JObj
       [(''FriendlyName'', JStr (city (locast_service a))),
        (''Manufacturer'', JStr ''locast2dvr''),
        (''ModelNumber'', JStr (device_model (config a))),
        (''FirmwareName'', JStr (device_firmware (config a))),
        (''TunerCount'', JInt (tuner_count (config a))),
        (''FirmwareVersion'', JStr (device_version (config a))),
        (''DeviceID'', JStr (uid a)),
        (''DeviceAuth'', JStr ''locast2dvr''),
        (''BaseURL'', JStr (''http://'' @ host_and_port a)),
        (''LineupURL'', JStr (''http://'' @ host_and_port a @ ''/lineup.json''))])"

definition epg :: "app \<Rightarrow> response" where
  "epg a = JsonStations (get_stations (locast_service a))"

definition epg_xml :: "app \<Rightarrow> response" where
  "epg_xml a =
     Xml ''epg.xml'' [(''url_base'', host_and_port a)] (get_stations (locast_service a))"

definition lineup_xml :: "app \<Rightarrow> response" where
  "lineup_xml a =
     Xml ''lineup.xml'' [(''url_base'', host_and_port a)] (get_stations (locast_service a))"

text \<open>
  \<^verbatim>\<open>output_config\<close> copies the configuration, overwrites the copy's
  \<^verbatim>\<open>password\<close> and hands the copy to \<^verbatim>\<open>jsonify\<close>; it also prints the
  configuration itself to the standard output of the server. The result is the
  response and the printed value.
\<close>

definition output_config :: "app \<Rightarrow> response \<times> Configuration" where
  "output_config a =
     (let c = config a;
          c = c\<lparr>password := ''*********''\<rparr>
      in (JsonConfig c, config a))"

definition watch_m3u :: "app \<Rightarrow> string \<Rightarrow> py_error + response" where
  "watch_m3u a channel_id =
     (case get_station_stream_uri (locast_service a) channel_id of
        Inl e \<Rightarrow> Inl e
      | Inr uri \<Rightarrow> Inr (Redirect uri 302))"

subsection \<open>One direct-stream session\<close>

text \<open>
  A request to \<^verbatim>\<open>/watch/<channel_id>\<close> creates a transcoder process, a daemon
  thread running \<^verbatim>\<open>log_output\<close> and the generator \<^verbatim>\<open>_stream()\<close>. The
  record holds what the properties below observe of them: the command line, the calls made
  on the process handle in order, the state of the generator, the state of the
  thread, the lines the thread logged, and the two variables called
  \<^verbatim>\<open>stop_thread\<close>. The first, \<open>stop_thread\<close>, is the local of
  \<^verbatim>\<open>watch\<close> that \<^verbatim>\<open>lambda: stop_thread\<close> reads. The second,
  \<open>stream_stop_thread\<close>, is the local of \<^verbatim>\<open>_stream\<close>: the name is assigned
  in the body of \<^verbatim>\<open>_stream\<close> and not declared \<^verbatim>\<open>nonlocal\<close>, so the
  assignment binds a variable of \<^verbatim>\<open>_stream\<close>, unbound (None) until then.
\<close>

datatype proc_call = Terminate | Communicate

text \<open>The states of a Python generator: created, suspended at a yield, closed.\<close>

datatype gen_state = Created | Suspended | Finished

datatype thread_state = Started | Looping | Exited

record session =
  ffmpeg_cmd :: "string list"
  proc_calls :: "proc_call list"
  stop_thread :: bool
  stream_stop_thread :: "bool option"
  gen :: gen_state
  thread :: thread_state
  ffmpeg_log :: "string list"

definition new_session :: "string list \<Rightarrow> session" where
  "new_session cmd =
     \<lparr> ffmpeg_cmd = cmd, proc_calls = [], stop_thread = False,
       stream_stop_thread = None, gen = Created, thread = Started, ffmpeg_log = [] \<rparr>"

text \<open>
  What \<^verbatim>\<open>ffmpeg_proc.stdout.read(config.bytes_per_read)\<close> does when the
  generator runs it: it returns bytes (none at end of file) or raises.
\<close>

datatype read_result = Data string | ReadRaises

datatype gen_result = Yield string | StopIteration

text \<open>
  The \<^verbatim>\<open>except:\<close> block of \<^verbatim>\<open>_stream\<close>, with the \<^verbatim>\<open>break\<close> that ends
  the generator.
\<close>

definition stream_except :: "session \<Rightarrow> session" where
  "stream_except s =
     s\<lparr> proc_calls := proc_calls s @ [Terminate, Communicate],
        stream_stop_thread := Some True,
        gen := Finished \<rparr>"

text \<open>
  \<^verbatim>\<open>next(g)\<close> on the generator: a closed generator raises StopIteration at
  once; otherwise the loop body runs until the \<^verbatim>\<open>yield\<close> or, when the read
  raises, through the \<^verbatim>\<open>except:\<close> block.
\<close>

definition stream_next :: "session \<Rightarrow> read_result \<Rightarrow> gen_result \<times> session" where
  "stream_next s r =
     (case gen s of
        Finished \<Rightarrow> (StopIteration, s)
      | _ \<Rightarrow> (case r of
                Data chunk \<Rightarrow> (Yield chunk, s\<lparr>gen := Suspended\<rparr>)
              | ReadRaises \<Rightarrow> (StopIteration, stream_except s)))"

text \<open>
  \<^verbatim>\<open>g.close()\<close>, which the WSGI server calls when the response ends or the
  client is gone: a generator that never started is closed without running any of
  its code; one suspended at the \<^verbatim>\<open>yield\<close> gets GeneratorExit raised there,
  inside the \<^verbatim>\<open>try\<close>, which the bare \<^verbatim>\<open>except:\<close> catches.
\<close>

definition stream_close :: "session \<Rightarrow> session" where
  "stream_close s =
     (case gen s of
        Created \<Rightarrow> s\<lparr>gen := Finished\<rparr>
      | Suspended \<Rightarrow> stream_except s
      | Finished \<Rightarrow> s)"

text \<open>\<^verbatim>\<open>str.isspace\<close> on the code points below 256, and \<^verbatim>\<open>str.rstrip()\<close>.\<close>

definition py_isspace :: "char \<Rightarrow> bool" where
  "py_isspace c =
     ((of_char c :: nat) \<in> set [9, 10, 11, 12, 13, 28, 29, 30, 31, 32, 133, 160])"

definition rstrip :: "string \<Rightarrow> string" where
  "rstrip s = rev (dropWhile py_isspace (rev s))"

text \<open>
  What \<^verbatim>\<open>stderr.readline().decode('utf-8')\<close> does in one iteration of the
  thread's loop: it gives a decoded line or raises.
\<close>

datatype readline_result = Line string | ReadlineRaises

text \<open>
  One step of the thread running \<^verbatim>\<open>log_output(ffmpeg_proc.stderr, lambda: stop_thread)\<close>:
  the first step tests \<^verbatim>\<open>config.verbose > 0\<close>; every later step is one test
  of \<^verbatim>\<open>while not stop()\<close> followed, when the loop goes on, by one iteration
  of its body. \<^verbatim>\<open>stop()\<close> reads the \<^verbatim>\<open>stop_thread\<close> of \<^verbatim>\<open>watch\<close>.
\<close>

definition log_output_step :: "Configuration \<Rightarrow> session \<Rightarrow> readline_result \<Rightarrow> session" where
  "log_output_step cfg s r =
     (case thread s of
        Exited \<Rightarrow> s
      | Started \<Rightarrow> (if verbose cfg > 0 then s\<lparr>thread := Looping\<rparr> else s\<lparr>thread := Exited\<rparr>)
      | Looping \<Rightarrow>
          (if \<not> stop_thread s then
             (case r of
                Line l \<Rightarrow> (let line = rstrip l in
                           if line \<noteq> [] then s\<lparr>ffmpeg_log := ffmpeg_log s @ [line]\<rparr> else s)
              | ReadlineRaises \<Rightarrow> s)
           else s\<lparr>thread := Exited\<rparr>))"

text \<open>
  The events of one session, in the order in which they happen: the consumer of
  the response pulls a chunk or closes the generator, the thread takes a step.
\<close>

datatype event = Next read_result | Close | LogStep readline_result

definition session_step :: "Configuration \<Rightarrow> session \<Rightarrow> event \<Rightarrow> session" where
  "session_step cfg s ev =
     (case ev of
        Next r \<Rightarrow> snd (stream_next s r)
      | Close \<Rightarrow> stream_close s
      | LogStep r \<Rightarrow> log_output_step cfg s r)"

fun session_run :: "Configuration \<Rightarrow> session \<Rightarrow> event list \<Rightarrow> session" where
  "session_run cfg s [] = s"
| "session_run cfg s (ev # evs) = session_run cfg (session_step cfg s ev) evs"

subsection \<open>The server\<close>

text \<open>
  The closure environment of the application, the programs
  \<^verbatim>\<open>subprocess.Popen\<close> can launch on this host, the sessions created so far
  and what was printed.
\<close>

record server =
  closure :: app
  programs :: "string list"
  sessions :: "session list"
  printed :: "Configuration list"

text \<open>The content type of the streamed response, as the source writes it.\<close>

definition stream_content_type :: string where
  \<open>stream_content_type = ''video/mpeg; codecs="avc1.4D401E''\<close>

text \<open>\<^verbatim>\<open>config.ffmpeg or 'ffmpeg'\<close>\<close>

definition ffmpeg_binary :: "Configuration \<Rightarrow> string" where
  "ffmpeg_binary cfg =
     (case ffmpeg cfg of
        None \<Rightarrow> ''ffmpeg''
      | Some path \<Rightarrow> if path = [] then ''ffmpeg'' else path)"

text \<open>
  \<^verbatim>\<open>watch\<close>: the URI is resolved first; an exception of the service leaves
  the handler there. Then the command line is built and the process is launched
  (FileNotFoundError when the program is missing), the thread is started and the
  response wraps the generator.
\<close>

definition watch :: "server \<Rightarrow> string \<Rightarrow> (py_error + response) \<times> server" where
  \<open>watch srv channel_id =
     (let a = closure srv in
      case get_station_stream_uri (locast_service a) channel_id of
        Inl e \<Rightarrow> (Inl e, srv)
      | Inr uri \<Rightarrow>
          (let ffmpeg_bin = ffmpeg_binary (config a);
               ffmpeg_cmd = [ffmpeg_bin, ''-i'', uri, ''-codec'', ''copy'', ''-f'',
                             ''mpegts'', ''pipe:1'']
           in if ffmpeg_bin \<in> set (programs srv)
              then (Inr (Stream (length (sessions srv)) stream_content_type),
                    srv\<lparr>sessions := sessions srv @ [new_session ffmpeg_cmd]\<rparr>)
              else (Inl (FileNotFoundError ffmpeg_bin), srv)))\<close>

datatype request =
    GetDeviceXml
  | GetDiscoverJson
  | GetLineupStatusJson
  | GetM3u
  | GetLineupJson
  | GetEpg
  | GetConfig
  | GetEpgXml
  | GetLineupXml
  | LineupPost "(string \<times> string) list"
  | WatchM3u string
  | Watch string

text \<open>The route table: the handler of a request, and the server after it.\<close>

definition handle :: "server \<Rightarrow> request \<Rightarrow> (py_error + response) \<times> server" where
  "handle srv req =
     (case req of
        GetDeviceXml \<Rightarrow> (Inr (device_xml (closure srv)), srv)
      | GetDiscoverJson \<Rightarrow> (Inr (discover_json (closure srv)), srv)
      | GetLineupStatusJson \<Rightarrow> (Inr (lineup_status_json (closure srv)), srv)
      | GetM3u \<Rightarrow> (m3u (closure srv), srv)
      | GetLineupJson \<Rightarrow> (lineup_json (closure srv), srv)
      | GetEpg \<Rightarrow> (Inr (epg (closure srv)), srv)
      | GetConfig \<Rightarrow>
          (case output_config (closure srv) of
             (resp, out) \<Rightarrow> (Inr resp, srv\<lparr>printed := printed srv @ [out]\<rparr>))
      | GetEpgXml \<Rightarrow> (Inr (epg_xml (closure srv)), srv)
      | GetLineupXml \<Rightarrow> (Inr (lineup_xml (closure srv)), srv)
      | LineupPost args \<Rightarrow>
          (case lineup_post (closure srv) args of
             (resp, a') \<Rightarrow> (Inr resp, srv\<lparr>closure := a'\<rparr>))
      | WatchM3u channel_id \<Rightarrow> (watch_m3u (closure srv) channel_id, srv)
      | Watch channel_id \<Rightarrow> watch srv channel_id)"

fun serve :: "server \<Rightarrow> request list \<Rightarrow> server" where
  "serve srv [] = srv"
| "serve srv (req # reqs) = serve (snd (handle srv req)) reqs"


definition start_server :: "app \<Rightarrow> string list \<Rightarrow> server" where
  "start_server a progs = \<lparr> closure = a, programs = progs, sessions = [], printed = [] \<rparr>"


subsection \<open>A concrete installation\<close>

definition example_config :: Configuration where
  "example_config =
     \<lparr> bind_address = ''127.0.0.1'', device_model = ''HDHR3-US'',
       device_firmware = ''hdhomerun3_atsc'', device_version = ''20170612'',
       tuner_count = 1, multiplex = False, ffmpeg = None, bytes_per_read = 1152000,
       verbose = 1, password = ''secret'', other_keys = [(''username'', PStr ''me'')] \<rparr>"

definition example_station :: station where
  "example_station =
     [''id'' \<mapsto> PInt 1001, ''name'' \<mapsto> PStr ''WCBS'', ''callSign'' \<mapsto> PStr ''2.1 CBS'',
      ''callSign_remapped'' \<mapsto> PStr ''702.1 CBSHD'', ''channel'' \<mapsto> PStr ''2.1'',
      ''channel_remapped'' \<mapsto> PStr ''702.1'', ''city'' \<mapsto> PStr ''New York'',
      ''logoUrl'' \<mapsto> PStr ''http://logo/1001.png'']"


definition example_service :: LocastService where
  "example_service =
     \<lparr> city = ''New York'', get_stations = [example_station],
       get_station_stream_uri =
         (\<lambda>c. if c = ''1001'' then Inr ''https://cdn/1001.m3u8''
              else Inl (UpstreamError ''404'')) \<rparr>"

definition example_app :: app where
  "example_app = HTTPInterface example_config 6077 ''abcd1234'' example_service False"

definition example_server :: server where
  "example_server = start_server example_app [''ffmpeg'']"

section \<open>Properties\<close>

text \<open>
  C7: \<^verbatim>\<open>lineup_post\<close> answers status 204 with an empty body when the
  \<^verbatim>\<open>scan\<close> parameter is the literal \<^verbatim>\<open>start\<close>, and for every other
  value \<open>v\<close> status 400 with the body \<open>v\<close> followed by
  \<^verbatim>\<open> is not a valid scan command\<close>.
\<close>

theorem lineup_post_start_or_invalid:
  "(args_get args ''scan'' = Some ''start'' \<longrightarrow>
      fst (lineup_post a args) = Text [] 204) \<and>
   (args_get args ''scan'' = Some v \<and> v \<noteq> ''start'' \<longrightarrow>
      fst (lineup_post a args) = Text (v @ '' is not a valid scan command'') 400)"
  by (simp add: lineup_post_def format_opt_def)

theorem lineup_post_start_or_invalid_witness:
  "args_get [(''scan'', ''start'')] ''scan'' = Some ''start'' \<and>
   fst (lineup_post example_app [(''scan'', ''start'')]) = Text [] 204 \<and>
   args_get [(''scan'', ''bogus'')] ''scan'' = Some ''bogus'' \<and> ''bogus'' \<noteq> ''start'' \<and>
   fst (lineup_post example_app [(''scan'', ''bogus'')]) =
     Text ''bogus is not a valid scan command'' 400"
  using lineup_post_start_or_invalid [of "[(''scan'', ''start'')]" example_app "''bogus''"]
        lineup_post_start_or_invalid [of "[(''scan'', ''bogus'')]" example_app "''bogus''"]
  by (simp add: args_get_def)

text \<open>
  C10: when the request has no \<^verbatim>\<open>scan\<close> parameter at all,
  \<^verbatim>\<open>request.args.get('scan')\<close> is None and \<^verbatim>\<open>lineup_post\<close> answers
  status 400 with the body \<^verbatim>\<open>None is not a valid scan command\<close>.
\<close>

theorem lineup_post_missing_scan:
  "''scan'' \<notin> fst ` set args \<Longrightarrow>
     args_get args ''scan'' = None \<and>
     fst (lineup_post a args) = Text ''None is not a valid scan command'' 400"
proof -
  assume "''scan'' \<notin> fst ` set args"
  then have "map_of args ''scan'' = None"
    by (simp add: map_of_eq_None_iff)
  then show ?thesis
    by (simp add: lineup_post_def args_get_def format_opt_def)
qed

theorem lineup_post_missing_scan_witness:
  "''scan'' \<notin> fst ` set [(''other'', ''1'')] \<and>
   fst (lineup_post example_app [(''other'', ''1'')]) =
     Text ''None is not a valid scan command'' 400"
  using lineup_post_missing_scan [of "[(''other'', ''1'')]" example_app]
  by simp

subsection \<open>No handler rebinds a variable of the closure environment\<close>

lemma lineup_post_closure: "snd (lineup_post a args) = a"
  by (simp add: lineup_post_def Let_def)

lemma handle_closure: "closure (snd (handle srv req)) = closure srv"
  by (cases req)
     (simp_all add: handle_def lineup_post_closure watch_def Let_def case_prod_beta
        split: sum.splits)

lemma serve_closure: "closure (serve srv reqs) = closure srv"
  by (induction reqs arbitrary: srv) (simp_all add: handle_closure)

text \<open>
  C5: handling \<^verbatim>\<open>/lineup.post\<close> (with \<^verbatim>\<open>scan=start\<close> or anything else)
  leaves the \<^verbatim>\<open>station_scan\<close> that \<^verbatim>\<open>lineup_status_json\<close> reads as it
  was, and after every sequence of requests the answer of
  \<^verbatim>\<open>/lineup_status.json\<close> is the shape chosen by the \<^verbatim>\<open>station_scan\<close>
  argument the application was created with.
\<close>

theorem lineup_status_fixed_at_creation:
  "closure srv = HTTPInterface cfg p u svc scan_flag \<Longrightarrow>
     closure (snd (handle srv (LineupPost args))) = closure srv \<and>
     station_scan (closure (serve srv reqs)) = scan_flag \<and>
     fst (handle (serve srv reqs) GetLineupStatusJson) =
       Inr (if scan_flag
            then Json (JObj [(''ScanInProgress'', JBool True), (''Progress'', JInt 50),
                             (''Found'', JInt 5)])
            else Json (JObj [(''ScanInProgress'', JBool False),
                             (''ScanPossible'', JBool True), (''Source'', JStr ''Antenna''),
                             (''SourceList'', JList [JStr ''Antenna''])]))"
  by (simp add: handle_closure serve_closure)
     (simp add: handle_def lineup_status_json_def serve_closure HTTPInterface_def)

theorem lineup_status_fixed_at_creation_witness:
  "closure example_server = HTTPInterface example_config 6077 ''abcd1234'' example_service False \<and>
   station_scan (closure (serve example_server
      [LineupPost [(''scan'', ''start'')], GetLineupStatusJson, Watch ''1001''])) = False \<and>
   fst (handle (serve example_server
      [LineupPost [(''scan'', ''start'')], GetLineupStatusJson, Watch ''1001''])
      GetLineupStatusJson) =
     Inr (Json (JObj [(''ScanInProgress'', JBool False), (''ScanPossible'', JBool True),
                      (''Source'', JStr ''Antenna''),
                      (''SourceList'', JList [JStr ''Antenna''])]))"
  using lineup_status_fixed_at_creation
    [of example_server example_config 6077 "''abcd1234''" example_service False
        "[(''scan'', ''start'')]"
        "[LineupPost [(''scan'', ''start'')], GetLineupStatusJson, Watch ''1001'']"]
  by (simp add: example_server_def example_app_def start_server_def)

text \<open>
  C9: whatever password is configured, the document \<^verbatim>\<open>/config\<close> answers with
  is the configuration with the \<^verbatim>\<open>password\<close> field replaced by the mask
  \<^verbatim>\<open>*********\<close>; two applications that differ only in the configured password
  give the same \<^verbatim>\<open>/config\<close> response, so the response carries nothing of the
  configured value. (The handler also prints the unmasked configuration to the
  standard output of the server; that is no part of the response.)
\<close>

theorem config_password_masked:
  "fst (output_config (HTTPInterface (cfg\<lparr>password := pw\<rparr>) p u svc scan_flag)) =
     JsonConfig (cfg\<lparr>password := ''*********''\<rparr>) \<and>
   fst (output_config (HTTPInterface (cfg\<lparr>password := pw\<rparr>) p u svc scan_flag)) =
     fst (output_config (HTTPInterface (cfg\<lparr>password := pw'\<rparr>) p u svc scan_flag)) \<and>
   fst (handle (start_server (HTTPInterface (cfg\<lparr>password := pw\<rparr>) p u svc scan_flag) progs)
          GetConfig) =
     fst (handle (start_server (HTTPInterface (cfg\<lparr>password := pw'\<rparr>) p u svc scan_flag) progs)
            GetConfig)"
  by (simp add: output_config_def HTTPInterface_def handle_def start_server_def)

text \<open>
  C6: when \<^verbatim>\<open>get_station_stream_uri\<close> fails for a channel id, both
  \<^verbatim>\<open>watch\<close> and \<^verbatim>\<open>watch_m3u\<close> end with that error, and the server is
  left as it was: no transcoder process has been started.
\<close>

theorem watch_unresolved_no_process:
  "get_station_stream_uri (locast_service (closure srv)) channel_id = Inl e \<Longrightarrow>
     watch srv channel_id = (Inl e, srv) \<and>
     watch_m3u (closure srv) channel_id = Inl e \<and>
     handle srv (Watch channel_id) = (Inl e, srv) \<and>
     handle srv (WatchM3u channel_id) = (Inl e, srv) \<and>
     sessions (snd (handle srv (Watch channel_id))) = sessions srv \<and>
     sessions (snd (handle srv (WatchM3u channel_id))) = sessions srv"
  by (simp add: watch_def watch_m3u_def handle_def)

theorem watch_unresolved_no_process_witness:
  "get_station_stream_uri (locast_service (closure example_server)) ''9999'' =
     Inl (UpstreamError ''404'') \<and>
   handle example_server (Watch ''9999'') = (Inl (UpstreamError ''404''), example_server) \<and>
   handle example_server (WatchM3u ''9999'') = (Inl (UpstreamError ''404''), example_server) \<and>
   sessions (snd (handle example_server (Watch ''9999''))) = []"
  using watch_unresolved_no_process [of example_server "''9999''" "UpstreamError ''404''"]
  by (simp add: example_server_def example_app_def start_server_def HTTPInterface_def
        example_service_def)

subsection \<open>The chunk sequence and the transcoder process\<close>



text \<open>
  At the end of the transcoder's output the read does not raise: it returns no
  bytes. The generator yields them like any other chunk and stays suspended, and
  nothing is called on the process. Here the transcoder gives one chunk and then
  three empty reads; a fourth pull would again yield an empty chunk.
\<close>

theorem stream_eof_counterexample:
  "fst (stream_next (session_run example_config (new_session [''ffmpeg''])
          [Next (Data ''abc''), Next (Data []), Next (Data [])]) (Data [])) = Yield [] \<and>
   gen (session_run example_config (new_session [''ffmpeg''])
          [Next (Data ''abc''), Next (Data []), Next (Data []), Next (Data [])]) = Suspended \<and>
   proc_calls (session_run example_config (new_session [''ffmpeg''])
          [Next (Data ''abc''), Next (Data []), Next (Data []), Next (Data [])]) = []"
  by (simp add: session_step_def stream_next_def new_session_def)

lemma session_step_started:
  "(gen s = Suspended \<and> proc_calls s = []) \<or>
   (gen s = Finished \<and> proc_calls s = [Terminate, Communicate]) \<Longrightarrow>
   (gen (session_step cfg s ev) = Suspended \<and> proc_calls (session_step cfg s ev) = []) \<or>
   (gen (session_step cfg s ev) = Finished \<and>
    proc_calls (session_step cfg s ev) = [Terminate, Communicate])"
  by (cases ev)
     (auto simp: session_step_def stream_next_def stream_close_def stream_except_def
        log_output_step_def Let_def split: read_result.splits thread_state.splits
        readline_result.splits)

lemma session_run_started:
  "(gen s = Suspended \<and> proc_calls s = []) \<or>
   (gen s = Finished \<and> proc_calls s = [Terminate, Communicate]) \<Longrightarrow>
   (gen (session_run cfg s evs) = Suspended \<and> proc_calls (session_run cfg s evs) = []) \<or>
   (gen (session_run cfg s evs) = Finished \<and>
    proc_calls (session_run cfg s evs) = [Terminate, Communicate])"
proof (induction evs arbitrary: s)
  case Nil
  then show ?case by simp
next
  case (Cons ev evs)
  from Cons.prems
  have "(gen (session_step cfg s ev) = Suspended \<and> proc_calls (session_step cfg s ev) = []) \<or>
        (gen (session_step cfg s ev) = Finished \<and>
         proc_calls (session_step cfg s ev) = [Terminate, Communicate])"
    by (rule session_step_started)
  then show ?case
    using Cons.IH [of "session_step cfg s ev"] by simp
qed

text \<open>
  C1, amended: a read that returns (with bytes, or with none at the end of the
  transcoder's output) never ends the chunk sequence: the chunk is yielded and the
  generator stays suspended. Once the sequence has started, it ends only through
  the \<^verbatim>\<open>except:\<close> block, so whenever it has ended \<^verbatim>\<open>terminate\<close> and then
  \<^verbatim>\<open>communicate\<close> have been called on the process, exactly once; while it has
  not ended nothing has been called on the process.
\<close>

theorem stream_cleanup_only_on_exit:
  assumes "gen s = Suspended" and "proc_calls s = []"
  shows "stream_next s (Data chunk) = (Yield chunk, s) \<and>
         (gen (session_run cfg s evs) = Finished \<longrightarrow>
            proc_calls (session_run cfg s evs) = [Terminate, Communicate]) \<and>
         (gen (session_run cfg s evs) \<noteq> Finished \<longrightarrow>
            gen (session_run cfg s evs) = Suspended \<and> proc_calls (session_run cfg s evs) = [])"
proof -
  have "stream_next s (Data chunk) = (Yield chunk, s)"
    using assms by (simp add: stream_next_def)
  moreover
  have "(gen (session_run cfg s evs) = Suspended \<and> proc_calls (session_run cfg s evs) = []) \<or>
        (gen (session_run cfg s evs) = Finished \<and>
         proc_calls (session_run cfg s evs) = [Terminate, Communicate])"
    using assms by (intro session_run_started) simp
  ultimately show ?thesis by auto
qed

theorem stream_cleanup_only_on_exit_witness:
  "gen (snd (stream_next (new_session [''ffmpeg'']) (Data ''abc''))) = Suspended \<and>
   proc_calls (snd (stream_next (new_session [''ffmpeg'']) (Data ''abc''))) = [] \<and>
   fst (stream_next (snd (stream_next (new_session [''ffmpeg'']) (Data ''abc''))) (Data [])) =
     Yield [] \<and>
   gen (session_run example_config (snd (stream_next (new_session [''ffmpeg'']) (Data ''abc'')))
          [Next (Data []), LogStep (Line ''frame=1''), Close]) = Finished \<and>
   proc_calls (session_run example_config
          (snd (stream_next (new_session [''ffmpeg'']) (Data ''abc'')))
          [Next (Data []), LogStep (Line ''frame=1''), Close]) = [Terminate, Communicate]"
  using stream_cleanup_only_on_exit
    [of "snd (stream_next (new_session [''ffmpeg'']) (Data ''abc''))" "[]" example_config
        "[Next (Data []), LogStep (Line ''frame=1''), Close]"]
  by (simp add: stream_next_def new_session_def session_step_def stream_close_def
        stream_except_def log_output_step_def)

subsection \<open>The stderr thread\<close>

lemma session_step_thread:
  "0 < verbose cfg \<Longrightarrow> thread s \<noteq> Exited \<and> \<not> stop_thread s \<Longrightarrow>
     thread (session_step cfg s ev) \<noteq> Exited \<and> \<not> stop_thread (session_step cfg s ev)"
  by (cases ev)
     (auto simp: session_step_def stream_next_def stream_close_def stream_except_def
        log_output_step_def Let_def split: read_result.splits thread_state.splits
        readline_result.splits gen_state.splits)

lemma session_run_thread:
  "0 < verbose cfg \<Longrightarrow> thread s \<noteq> Exited \<and> \<not> stop_thread s \<Longrightarrow>
     thread (session_run cfg s evs) \<noteq> Exited \<and> \<not> stop_thread (session_run cfg s evs)"
proof (induction evs arbitrary: s)
  case Nil
  then show ?case by simp
next
  case (Cons ev evs)
  then show ?case
    using session_step_thread [of cfg s ev] by simp
qed

text \<open>
  C4 says that the thread running \<^verbatim>\<open>log_output\<close> sees the stop signal of the
  cleanup path and ends. The code does not do that: the cleanup assigns the
  \<^verbatim>\<open>stop_thread\<close> of \<^verbatim>\<open>_stream\<close>, and \<^verbatim>\<open>stop()\<close> reads the
  \<^verbatim>\<open>stop_thread\<close> of \<^verbatim>\<open>watch\<close>, which stays False. With
  \<^verbatim>\<open>config.verbose > 0\<close> the thread of a session never exits, whatever the
  consumer and the thread do and in whatever order.
\<close>

theorem log_output_never_stops:
  "0 < verbose cfg \<Longrightarrow>
     thread (session_run cfg (new_session cmd) evs) \<noteq> Exited \<and>
     \<not> stop_thread (session_run cfg (new_session cmd) evs)"
  by (rule session_run_thread) (simp_all add: new_session_def)

theorem log_output_never_stops_witness:
  "0 < verbose example_config \<and>
   proc_calls (session_run example_config (new_session [''ffmpeg''])
     [LogStep (Line ''frame=1''), Next (Data ''abc''), Close, LogStep ReadlineRaises,
      LogStep (Line [])]) = [Terminate, Communicate] \<and>
   stream_stop_thread (session_run example_config (new_session [''ffmpeg''])
     [LogStep (Line ''frame=1''), Next (Data ''abc''), Close, LogStep ReadlineRaises,
      LogStep (Line [])]) = Some True \<and>
   stop_thread (session_run example_config (new_session [''ffmpeg''])
     [LogStep (Line ''frame=1''), Next (Data ''abc''), Close, LogStep ReadlineRaises,
      LogStep (Line [])]) = False \<and>
   thread (session_run example_config (new_session [''ffmpeg''])
     [LogStep (Line ''frame=1''), Next (Data ''abc''), Close, LogStep ReadlineRaises,
      LogStep (Line [])]) = Looping"
  using log_output_never_stops [of example_config "[''ffmpeg'']"
     "[LogStep (Line ''frame=1''), Next (Data ''abc''), Close, LogStep ReadlineRaises,
      LogStep (Line [])]"]
  by (simp add: example_config_def session_step_def stream_next_def stream_close_def
        stream_except_def log_output_step_def new_session_def rstrip_def py_isspace_def
        Let_def)

subsection \<open>Admission of direct-stream requests\<close>




subsection \<open>Remapped callsigns and channels\<close>





























end
